theory Spec2Isabelle
  imports Complex_Main
begin

section \<open>JavaScript values, objects and errors\<close>

text \<open>
  The values that occur in quotes and cache entries. \<open>JObj\<close> stands for a nested plain
  object (kept as its JSON text); it is always truthy.
\<close>

datatype jsval = JUndefined | JNull | JBool bool | JNum int | JStr string | JObj string

fun truthy :: "jsval \<Rightarrow> bool" where
  "truthy JUndefined = False"
| "truthy JNull = False"
| "truthy (JBool b) = b"
| "truthy (JNum n) = (n \<noteq> 0)"
| "truthy (JStr s) = (s \<noteq> [])"
| "truthy (JObj _) = True"

text \<open>A plain object: its own properties in insertion order.\<close>

type_synonym object = "(string \<times> jsval) list"

text \<open>\<open>obj.k\<close>: a property that is not there reads as \<open>undefined\<close>.\<close>

definition get_prop :: "object \<Rightarrow> string \<Rightarrow> jsval" where
  "get_prop obj k = (case map_of obj k of None \<Rightarrow> JUndefined | Some v \<Rightarrow> v)"

text \<open>\<open>{...obj, k: v}\<close>: an existing property keeps its place and takes the new value.\<close>

fun with_prop :: "string \<Rightarrow> jsval \<Rightarrow> object \<Rightarrow> object" where
  "with_prop k v [] = [(k, v)]"
| "with_prop k v ((k', v') # ps) =
     (if k' = k then (k, v) # ps else (k', v') # with_prop k v ps)"

datatype js_error = Error string | TypeError string

text \<open>\<open>error.message\<close>; a \<open>TypeError\<close> carries the property whose read failed.\<close>

fun message :: "js_error \<Rightarrow> string" where
  "message (Error m) = m"
| "message (TypeError p) =
     ''Cannot read properties of undefined (reading '' @ [CHR 0x27] @ p @ [CHR 0x27] @ '')''"

text \<open>
  The outcome of \<open>o[k]\<close> on an object literal: an own property, a property inherited
  from \<open>Object.prototype\<close>, or \<open>undefined\<close>.
\<close>

datatype 'a lookup = Own 'a | Inherited | Missing

definition object_prototype_names :: "string list" where
  "object_prototype_names =
     [''constructor'', ''__defineGetter__'', ''__defineSetter__'', ''hasOwnProperty'',
      ''__lookupGetter__'', ''__lookupSetter__'', ''isPrototypeOf'',
      ''propertyIsEnumerable'', ''toString'', ''valueOf'', ''__proto__'',
      ''toLocaleString'']"

section \<open>Strings\<close>

text \<open>
  A string is the list of its UTF-16 code units, each below 256: the characters of Basic
  Latin and of the Latin-1 Supplement, \<open>CHR 0xC9\<close> being the capital E with acute and
  \<open>CHR 0xDF\<close> the sharp s. Strings with other characters are outside this model.

  On these strings \<open>String.prototype.toLowerCase\<close> works unit by unit: the letters
  \<open>A\<close> to \<open>Z\<close> and the letters from U+00C0 to U+00DE, the multiplication sign U+00D7
  apart, move up by 32, and every other unit stays (the sharp s, the micro sign and the
  y with diaeresis are lower case already).
\<close>

definition upper_letters :: string where
  "upper_letters = ''ABCDEFGHIJKLMNOPQRSTUVWXYZ''
     @ [CHR 0xC0, CHR 0xC1, CHR 0xC2, CHR 0xC3, CHR 0xC4, CHR 0xC5, CHR 0xC6, CHR 0xC7,
        CHR 0xC8, CHR 0xC9, CHR 0xCA, CHR 0xCB, CHR 0xCC, CHR 0xCD, CHR 0xCE, CHR 0xCF,
        CHR 0xD0, CHR 0xD1, CHR 0xD2, CHR 0xD3, CHR 0xD4, CHR 0xD5, CHR 0xD6,
        CHR 0xD8, CHR 0xD9, CHR 0xDA, CHR 0xDB, CHR 0xDC, CHR 0xDD, CHR 0xDE]"

definition lower_letters :: string where
  "lower_letters = ''abcdefghijklmnopqrstuvwxyz''
     @ [CHR 0xE0, CHR 0xE1, CHR 0xE2, CHR 0xE3, CHR 0xE4, CHR 0xE5, CHR 0xE6, CHR 0xE7,
        CHR 0xE8, CHR 0xE9, CHR 0xEA, CHR 0xEB, CHR 0xEC, CHR 0xED, CHR 0xEE, CHR 0xEF,
        CHR 0xF0, CHR 0xF1, CHR 0xF2, CHR 0xF3, CHR 0xF4, CHR 0xF5, CHR 0xF6,
        CHR 0xF8, CHR 0xF9, CHR 0xFA, CHR 0xFB, CHR 0xFC, CHR 0xFD, CHR 0xFE]"

definition lower_char :: "char \<Rightarrow> char" where
  "lower_char c =
     (case map_of (zip upper_letters lower_letters) c of
        None \<Rightarrow> c
      | Some d \<Rightarrow> d)"

definition toLowerCase :: "string \<Rightarrow> string" where
  "toLowerCase s = map lower_char s"

text \<open>
  \<open>String.prototype.toUpperCase\<close> of such a string, as the code units of the result,
  which can leave Latin-1: the sharp s becomes \<open>SS\<close>, the micro sign becomes U+039C and
  the y with diaeresis becomes U+0178. \<open>getPrice\<close> does not call it; it says which
  strings are the same up to the case of their letters.
\<close>

definition upper_char :: "char \<Rightarrow> nat list" where
  "upper_char c =
     (if c = CHR 0xDF then [0x53, 0x53]
      else if c = CHR 0xB5 then [0x39C]
      else if c = CHR 0xFF then [0x178]
      else case map_of (zip lower_letters upper_letters) c of
             None \<Rightarrow> [of_char c]
           | Some u \<Rightarrow> [of_char u])"

definition toUpperCase :: "string \<Rightarrow> nat list" where
  "toUpperCase s = concat (map upper_char s)"

text \<open>
  Two strings that are equal up to letter case: they have the same lower-case form or
  the same upper-case form.
\<close>

definition case_variants :: "string \<Rightarrow> string \<Rightarrow> bool" where
  "case_variants s t = (toLowerCase s = toLowerCase t \<or> toUpperCase s = toUpperCase t)"

text \<open>
  Two strings that agree place by place up to the case of their letters: each pair of
  characters has the same lower-case form.
\<close>

definition same_up_to_case :: "string \<Rightarrow> string \<Rightarrow> bool" where
  "same_up_to_case s t = list_all2 (\<lambda>a b. lower_char a = lower_char b) s t"

section \<open>Configuration (constructor of PriceFeedProvider)\<close>

record tier_config =
  ttl :: int
  refresh :: "int option"

text \<open>\<open>config.tiers\<close> in declaration order; the \<open>pairs\<close> sets are part of the state.\<close>

definition config_tiers :: "(string \<times> tier_config) list" where
  "config_tiers =
     [(''TIER_1'', \<lparr>ttl = 10000, refresh = Some 5000\<rparr>),
      (''TIER_2'', \<lparr>ttl = 60000, refresh = Some 30000\<rparr>),
      (''TIER_3'', \<lparr>ttl = 300000, refresh = Some 180000\<rparr>),
      (''TIER_4'', \<lparr>ttl = 600000, refresh = None\<rparr>)]"

definition maxStaleAge :: int where
  "maxStaleAge = 3600000"

text \<open>\<open>config.circuitBreaker\<close>.\<close>

definition failureThreshold :: nat where
  "failureThreshold = 5"

definition cb_timeout :: int where
  "cb_timeout = 30000"

definition resetTimeout :: int where
  "resetTimeout = 60000"

text \<open>\<open>this.config.tiers[t]\<close> for a string \<open>t\<close>.\<close>

definition tiers_get :: "string \<Rightarrow> tier_config lookup" where
  "tiers_get t =
     (case map_of config_tiers t of
        Some c \<Rightarrow> Own c
      | None \<Rightarrow> if t \<in> set object_prototype_names then Inherited else Missing)"

text \<open>
  \<open>this.config.tiers[v]\<close> for any value \<open>v\<close>: the key is \<open>String(v)\<close>, which for
  \<open>undefined\<close>, \<open>null\<close>, a boolean, a number or a plain object (with the
  \<open>toString\<close> it inherits) is \<open>undefined\<close>,
  \<open>null\<close>, \<open>true\<close>, \<open>false\<close>, a numeral or \<open>[object Object]\<close>: no property of
  \<open>config.tiers\<close>.
\<close>

fun tiers_at :: "jsval \<Rightarrow> tier_config lookup" where
  "tiers_at (JStr s) = tiers_get s"
| "tiers_at _ = Missing"

section \<open>Cache keys\<close>

definition generateCacheKey :: "string \<Rightarrow> string \<Rightarrow> string \<Rightarrow> string \<Rightarrow> string \<Rightarrow> string" where
  "generateCacheKey chainName tokenInSymbol tokenOutSymbol amount tradeType =
     toLowerCase (''price:'' @ chainName @ '':'' @ tokenInSymbol @ '':'' @ tokenOutSymbol
                  @ '':'' @ amount @ '':'' @ tradeType)"

text \<open>The pair key of \<open>getTierForPair\<close> and \<open>addPairToTier\<close>.\<close>

definition pairKey :: "string \<Rightarrow> string \<Rightarrow> string \<Rightarrow> string" where
  "pairKey chainName tokenInSymbol tokenOutSymbol =
     toLowerCase (chainName @ '':'' @ tokenInSymbol @ '':'' @ tokenOutSymbol)"

section \<open>Cache entries and the freshness checks\<close>

record cache_entry =
  data :: object
  timestamp :: int
  tier :: jsval

text \<open>
  \<open>isExpired\<close>, with the reading of \<open>Date.now()\<close> as an argument. An inherited
  property has no \<open>ttl\<close>, and a comparison with \<open>undefined\<close> is false; reading
  \<open>ttl\<close> of \<open>undefined\<close> throws.
\<close>

definition isExpired :: "int \<Rightarrow> cache_entry \<Rightarrow> js_error + bool" where
  "isExpired now cached =
     (let t = (if truthy (tier cached) then tier cached else JStr ''TIER_4'') in
      case tiers_at t of
        Own c \<Rightarrow> Inr (now - timestamp cached > ttl c)
      | Inherited \<Rightarrow> Inr False
      | Missing \<Rightarrow> Inl (TypeError ''ttl''))"

definition canServeStale :: "int \<Rightarrow> cache_entry \<Rightarrow> bool" where
  "canServeStale now cached = (now - timestamp cached < maxStaleAge)"

section \<open>Metrics\<close>

record counters =
  cacheHits :: nat
  cacheMisses :: nat
  errors :: nat
  responseTime :: "int list"
  lastReset :: int

text \<open>
  JavaScript numbers as far as \<open>getMetrics\<close> needs them: a quotient of two numbers is
  \<open>NaN\<close> for \<open>0 / 0\<close>, infinite for a non-zero numerator over zero, and the quotient
  otherwise (taken exactly).
\<close>

datatype number = NaN | PosInf | NegInf | Num rat

definition js_div :: "rat \<Rightarrow> rat \<Rightarrow> number" where
  "js_div a b =
     (if b = 0 then (if a = 0 then NaN else if a > 0 then PosInf else NegInf)
      else Num (a / b))"

text \<open>\<open>x || 0\<close>: \<open>NaN\<close> and \<open>0\<close> are the falsy numbers.\<close>

fun or_zero :: "number \<Rightarrow> number" where
  "or_zero NaN = Num 0"
| "or_zero (Num q) = (if q = 0 then Num 0 else Num q)"
| "or_zero x = x"

definition hitRate :: "counters \<Rightarrow> number" where
  "hitRate m =
     or_zero (js_div (of_nat (cacheHits m)) (of_nat (cacheHits m + cacheMisses m)))"

definition avgResponseTime :: "counters \<Rightarrow> number" where
  "avgResponseTime m =
     (if length (responseTime m) > 0
      then js_div (of_int (sum_list (responseTime m))) (of_nat (length (responseTime m)))
      else Num 0)"

section \<open>The provider and its surroundings\<close>

text \<open>A job of the Bull queue: name, job data and options.\<close>

record job =
  j_name :: string
  j_chainName :: string
  j_tokenInSymbol :: string
  j_tokenOutSymbol :: string
  j_amount :: string
  j_tradeType :: string
  j_timestamp :: int
  j_priority :: int
  j_attempts :: nat
  j_backoff :: "string \<times> int"

text \<open>
  The commands sent to Redis. \<open>SETEX_NaN\<close> is \<open>SETEX\<close> with \<open>NaN\<close> for the
  seconds.
\<close>

datatype redis_cmd = GET string | SETEX string int cache_entry | SETEX_NaN string cache_entry

type_synonym request = "string \<times> string \<times> string \<times> string \<times> string"

text \<open>
  The state of a \<open>PriceFeedProvider\<close> together with what it talks to.
  \<^item> \<open>store\<close>: the contents of Redis, each key with the TTL in seconds it was written
    with and the parsed entry (expiry by Redis itself is not simulated; properties with
    the value \<open>undefined\<close>, which the JSON text would not keep, are taken not to occur
    in a quote);
  \<^item> \<open>redisLog\<close>: the commands sent so far; \<open>redisDown n\<close>: whether the command
    number \<open>n\<close> is rejected;
  \<^item> \<open>pairs t\<close>: the set \<open>config.tiers[t].pairs\<close> in insertion order;
  \<^item> \<open>clock n\<close>: the value of the reading number \<open>n\<close> of the wall clock;
  \<^item> \<open>upstream n r\<close>: the outcome of the call number \<open>n\<close> of \<open>getPriceForPair\<close>
    with parameters \<open>r\<close>; \<open>upstreamLog\<close>: the calls made so far.
\<close>

record provider =
  store :: "string \<rightharpoonup> int \<times> cache_entry"
  redisLog :: "redis_cmd list"
  redisDown :: "nat \<Rightarrow> bool"
  priceQueue :: "job list"
  pairs :: "string \<Rightarrow> string list"
  metrics :: counters
  clock :: "nat \<Rightarrow> int"
  ticks :: nat
  upstream :: "nat \<Rightarrow> request \<Rightarrow> js_error + object"
  upstreamLog :: "request list"

definition Date_now :: "provider \<Rightarrow> int \<times> provider" where
  "Date_now s = (clock s (ticks s), s\<lparr>ticks := Suc (ticks s)\<rparr>)"

text \<open>The provider as the constructor leaves it, on a given store and surroundings.\<close>

definition new_provider ::
  "(string \<rightharpoonup> int \<times> cache_entry) \<Rightarrow> (nat \<Rightarrow> bool) \<Rightarrow> (nat \<Rightarrow> int) \<Rightarrow>
   (nat \<Rightarrow> request \<Rightarrow> js_error + object) \<Rightarrow> provider" where
  "new_provider st down clk up =
     \<lparr>store = st, redisLog = [], redisDown = down, priceQueue = [],
      pairs = (\<lambda>_. []),
      metrics = \<lparr>cacheHits = 0, cacheMisses = 0, errors = 0, responseTime = [],
                 lastReset = clk 0\<rparr>,
      clock = clk, ticks = 1, upstream = up, upstreamLog = []\<rparr>"

subsection \<open>Redis\<close>

definition redis_get :: "string \<Rightarrow> provider \<Rightarrow> (js_error + cache_entry option) \<times> provider" where
  "redis_get key s =
     (let n = length (redisLog s);
          s' = s\<lparr>redisLog := redisLog s @ [GET key]\<rparr>
      in if redisDown s n then (Inl (Error ''redis''), s')
         else (Inr (map_option snd (store s key)), s'))"

definition redis_setex ::
  "string \<Rightarrow> int \<Rightarrow> cache_entry \<Rightarrow> provider \<Rightarrow> (js_error + unit) \<times> provider" where
  "redis_setex key seconds entry s =
     (let n = length (redisLog s);
          s' = s\<lparr>redisLog := redisLog s @ [SETEX key seconds entry]\<rparr>
      in if redisDown s n then (Inl (Error ''redis''), s')
         else (Inr (), s'\<lparr>store := (store s)(key \<mapsto> (seconds, entry))\<rparr>))"

text \<open>\<open>getFromCache\<close>: an error of the store is logged and read as no entry.\<close>

definition getFromCache :: "string \<Rightarrow> provider \<Rightarrow> cache_entry option \<times> provider" where
  "getFromCache key s =
     (case redis_get key s of
        (Inr d, s') \<Rightarrow> (d, s')
      | (Inl err, s') \<Rightarrow> (None, s'))"

text \<open>
  \<open>SETEX\<close> with \<open>NaN\<close> seconds: the command is sent, and Redis refuses a TTL that
  is not an integer.
\<close>

definition redis_setex_NaN ::
  "string \<Rightarrow> cache_entry \<Rightarrow> provider \<Rightarrow> (js_error + unit) \<times> provider" where
  "redis_setex_NaN key entry s =
     (Inl (Error ''redis''), s\<lparr>redisLog := redisLog s @ [SETEX_NaN key entry]\<rparr>)"

text \<open>
  \<open>setCache\<close>: the entry is built first; a tier that \<open>config.tiers\<close> does not have
  throws inside the \<open>try\<close>; an inherited name has no \<open>ttl\<close>, and
  \<open>Math.floor(undefined / 1000)\<close> is \<open>NaN\<close>; every error is logged and dropped.
\<close>

definition setCache :: "string \<Rightarrow> object \<Rightarrow> string \<Rightarrow> provider \<Rightarrow> provider" where
  "setCache key d tr s =
     (let (now, s1) = Date_now s;
          cacheEntry = \<lparr>data = d, timestamp = now, tier = JStr tr\<rparr>
      in case tiers_get tr of
           Own c \<Rightarrow> snd (redis_setex key (ttl c div 1000) cacheEntry s1)
         | Inherited \<Rightarrow> snd (redis_setex_NaN key cacheEntry s1)
         | Missing \<Rightarrow> s1)"

subsection \<open>Tiers\<close>

text \<open>\<open>Set.prototype.add\<close> on a set kept in insertion order.\<close>

definition set_add :: "string \<Rightarrow> string list \<Rightarrow> string list" where
  "set_add x xs = (if x \<in> set xs then xs else xs @ [x])"

text \<open>The loop of \<open>getTierForPair\<close> over \<open>Object.entries(this.config.tiers)\<close>.\<close>

fun getTierForPair_loop ::
  "(string \<times> tier_config) list \<Rightarrow> (string \<Rightarrow> string list) \<Rightarrow> string \<Rightarrow> string" where
  "getTierForPair_loop [] ps k = ''TIER_4''"
| "getTierForPair_loop ((t, c) # rest) ps k =
     (if k \<in> set (ps t) then t else getTierForPair_loop rest ps k)"

definition getTierForPair :: "string \<Rightarrow> string \<Rightarrow> string \<Rightarrow> provider \<Rightarrow> string" where
  "getTierForPair chainName tokenInSymbol tokenOutSymbol s =
     getTierForPair_loop config_tiers (pairs s) (pairKey chainName tokenInSymbol tokenOutSymbol)"

text \<open>
  \<open>addPairToTier\<close>: \<open>this.config.tiers[tier].pairs.add(pairKey)\<close>. Without the tier
  the read of \<open>pairs\<close> throws; an inherited name has no \<open>pairs\<close>, so the read of
  \<open>add\<close> throws.
\<close>

definition addPairToTier ::
  "string \<Rightarrow> string \<Rightarrow> string \<Rightarrow> string \<Rightarrow> provider \<Rightarrow> js_error + provider" where
  "addPairToTier chainName tokenInSymbol tokenOutSymbol tr s =
     (let k = pairKey chainName tokenInSymbol tokenOutSymbol in
      case tiers_get tr of
        Own c \<Rightarrow> Inr (s\<lparr>pairs := (pairs s)(tr := set_add k (pairs s tr))\<rparr>)
      | Inherited \<Rightarrow> Inl (TypeError ''add'')
      | Missing \<Rightarrow> Inl (TypeError ''pairs''))"

text \<open>
  A sequence of calls of \<open>addPairToTier\<close>, each with its own arguments; a call that
  throws leaves the provider as it was.
\<close>

fun addPairsToTiers :: "(string \<times> string \<times> string \<times> string) list \<Rightarrow> provider \<Rightarrow> provider" where
  "addPairsToTiers [] s = s"
| "addPairsToTiers ((c, i, out, tr) # calls) s =
     addPairsToTiers calls (case addPairToTier c i out tr s of Inl err \<Rightarrow> s | Inr s' \<Rightarrow> s')"

subsection \<open>Upstream and the queue\<close>

definition fetchPrice ::
  "string \<Rightarrow> string \<Rightarrow> string \<Rightarrow> string \<Rightarrow> string \<Rightarrow> provider \<Rightarrow> (js_error + object) \<times> provider" where
  "fetchPrice chainName tokenInSymbol tokenOutSymbol amount tradeType s =
     (let r = (chainName, tokenInSymbol, tokenOutSymbol, amount, tradeType) in
      (upstream s (length (upstreamLog s)) r, s\<lparr>upstreamLog := upstreamLog s @ [r]\<rparr>))"

definition queuePriceUpdate ::
  "string \<Rightarrow> string \<Rightarrow> string \<Rightarrow> string \<Rightarrow> string \<Rightarrow> string \<Rightarrow> provider \<Rightarrow> provider" where
  "queuePriceUpdate chainName tokenInSymbol tokenOutSymbol amount tradeType priority s =
     (let (now, s1) = Date_now s;
          j = \<lparr>j_name = ''fetch-price'', j_chainName = chainName,
               j_tokenInSymbol = tokenInSymbol, j_tokenOutSymbol = tokenOutSymbol,
               j_amount = amount, j_tradeType = tradeType, j_timestamp = now,
               j_priority = (if priority = ''high'' then 1
                             else if priority = ''background'' then - 1 else 0),
               j_attempts = 3, j_backoff = (''exponential'', 2000)\<rparr>
      in s1\<lparr>priceQueue := priceQueue s1 @ [j]\<rparr>)"

definition recordResponseTime :: "int \<Rightarrow> provider \<Rightarrow> provider" where
  "recordResponseTime time s =
     (let rt = responseTime (metrics s) @ [time];
          rt' = (if length rt > 1000 then tl rt else rt)
      in s\<lparr>metrics := (metrics s)\<lparr>responseTime := rt'\<rparr>\<rparr>)"

section \<open>getPrice\<close>

text \<open>
  The last part of the \<open>try\<close> block: no entry, or one too old to serve. The miss is
  counted, upstream is called, and a quote that arrives is written to the store.
\<close>

definition getPrice_fetch ::
  "string \<Rightarrow> string \<Rightarrow> string \<Rightarrow> string \<Rightarrow> string \<Rightarrow> int \<Rightarrow> string \<Rightarrow> provider \<Rightarrow>
   (js_error + object) \<times> provider" where
  "getPrice_fetch chainName tokenInSymbol tokenOutSymbol amount tradeType startTime cacheKey s =
     (let s1 = s\<lparr>metrics := (metrics s)\<lparr>cacheMisses := cacheMisses (metrics s) + 1\<rparr>\<rparr>;
          (res, s2) = fetchPrice chainName tokenInSymbol tokenOutSymbol amount tradeType s1
      in case res of
           Inl err \<Rightarrow> (Inl err, s2)
         | Inr price \<Rightarrow>
             (let s3 = setCache cacheKey price
                         (getTierForPair chainName tokenInSymbol tokenOutSymbol s2) s2;
                  (now, s4) = Date_now s3;
                  s5 = recordResponseTime (now - startTime) s4
              in (Inr price, s5)))"

text \<open>
  The \<open>try\<close> block. \<open>isExpired\<close> and \<open>canServeStale\<close> each read the clock, and
  only when there is an entry; an exception leaves with the state as it is then. Where
  \<open>isExpired\<close> throws, it does so on the read of \<open>ttl\<close>, before it reads the clock.
\<close>

definition getPrice_try ::
  "string \<Rightarrow> string \<Rightarrow> string \<Rightarrow> string \<Rightarrow> string \<Rightarrow> int \<Rightarrow> string \<Rightarrow> provider \<Rightarrow>
   (js_error + object) \<times> provider" where
  "getPrice_try chainName tokenInSymbol tokenOutSymbol amount tradeType startTime cacheKey s =
     (let (cached, s1) = getFromCache cacheKey s in
      case cached of
        None \<Rightarrow>
          getPrice_fetch chainName tokenInSymbol tokenOutSymbol amount tradeType
            startTime cacheKey s1
      | Some c \<Rightarrow>
          (let (now1, s2) = Date_now s1 in
           case isExpired now1 c of
             Inl err \<Rightarrow> (Inl err, s1)
           | Inr expired \<Rightarrow>
               if \<not> expired then
                 (let s3 = s2\<lparr>metrics := (metrics s2)\<lparr>cacheHits := cacheHits (metrics s2) + 1\<rparr>\<rparr>;
                      (now, s4) = Date_now s3;
                      s5 = recordResponseTime (now - startTime) s4
                  in (Inr (data c), s5))
               else
                 (let (now2, s3) = Date_now s2 in
                  if canServeStale now2 c then
                    (let s4 = queuePriceUpdate chainName tokenInSymbol tokenOutSymbol amount
                                tradeType ''background'' s3;
                         s5 = s4\<lparr>metrics := (metrics s4)\<lparr>cacheHits := cacheHits (metrics s4) + 1\<rparr>\<rparr>;
                         (now, s6) = Date_now s5;
                         s7 = recordResponseTime (now - startTime) s6
                     in (Inr (with_prop ''_stale'' (JBool True) (data c)), s7))
                  else
                    getPrice_fetch chainName tokenInSymbol tokenOutSymbol amount tradeType
                      startTime cacheKey s3)))"

text \<open>\<open>getPrice\<close>: the \<open>try\<close> block and the \<open>catch\<close> with its fallback read.\<close>

definition getPrice ::
  "string \<Rightarrow> string \<Rightarrow> string \<Rightarrow> string \<Rightarrow> string \<Rightarrow> provider \<Rightarrow>
   (js_error + object) \<times> provider" where
  "getPrice chainName tokenInSymbol tokenOutSymbol amount tradeType s =
     (let (startTime, s1) = Date_now s;
          cacheKey = generateCacheKey chainName tokenInSymbol tokenOutSymbol amount tradeType
      in case getPrice_try chainName tokenInSymbol tokenOutSymbol amount tradeType
                startTime cacheKey s1 of
           (Inr v, s2) \<Rightarrow> (Inr v, s2)
         | (Inl err, s2) \<Rightarrow>
             (let s3 = s2\<lparr>metrics := (metrics s2)\<lparr>errors := errors (metrics s2) + 1\<rparr>\<rparr>;
                  (cached, s4) = getFromCache cacheKey s3
              in case cached of
                   Some c \<Rightarrow>
                     (Inr (with_prop ''_veryStale'' (JBool True)
                            (with_prop ''_error'' (JStr (message err)) (data c))), s4)
                 | None \<Rightarrow> (Inl err, s4)))"

text \<open>A run of requests one after the other, with the result of each.\<close>

fun getPrices :: "request list \<Rightarrow> provider \<Rightarrow> (js_error + object) list \<times> provider" where
  "getPrices [] s = ([], s)"
| "getPrices ((c, i, out, a, t) # rs) s =
     (let (res, s1) = getPrice c i out a t s;
          (ress, s2) = getPrices rs s1
      in (res # ress, s2))"

section \<open>getMetrics\<close>

text \<open>The snapshot without the queue statistics, which are the queue's own.\<close>

record snapshot =
  snap_metrics :: counters
  snap_uptime :: int
  snap_hitRate :: number
  snap_avgResponseTime :: number

definition getMetrics :: "provider \<Rightarrow> snapshot \<times> provider" where
  "getMetrics s =
     (let (now, s1) = Date_now s;
          uptime = now - lastReset (metrics s1)
      in (\<lparr>snap_metrics = metrics s1, snap_uptime = uptime,
           snap_hitRate = hitRate (metrics s1),
           snap_avgResponseTime = avgResponseTime (metrics s1)\<rparr>, s1))"

section \<open>The route GET /price/:chainName/:tokenIn/:tokenOut\<close>

record metadata =
  m_cached :: bool
  m_stale :: bool
  m_veryStale :: bool
  m_error :: jsval
  m_timestamp :: int

datatype http_body = PriceOk object metadata | Failure string int

record http_response =
  status :: nat
  cacheControl :: "string option"
  body :: http_body

text \<open>The query parameters \<open>amount\<close> and \<open>tradeType\<close> have defaults when absent.\<close>

definition price_route ::
  "string \<Rightarrow> string \<Rightarrow> string \<Rightarrow> string option \<Rightarrow> string option \<Rightarrow> provider \<Rightarrow>
   http_response \<times> provider" where
  "price_route chainName tokenIn tokenOut q_amount q_tradeType s =
     (let amount = (case q_amount of None \<Rightarrow> ''1000'' | Some a \<Rightarrow> a);
          tradeType = (case q_tradeType of None \<Rightarrow> ''exactIn'' | Some t \<Rightarrow> t);
          (res, s1) = getPrice chainName tokenIn tokenOut amount tradeType s;
          (now, s2) = Date_now s1
      in case res of
           Inr price \<Rightarrow>
             (let md = \<lparr>m_cached = (\<not> truthy (get_prop price ''_stale'')
                                     \<and> \<not> truthy (get_prop price ''_veryStale'')),
                        m_stale = truthy (get_prop price ''_stale''),
                        m_veryStale = truthy (get_prop price ''_veryStale''),
                        m_error = (if truthy (get_prop price ''_error'')
                                   then get_prop price ''_error'' else JNull),
                        m_timestamp = now\<rparr>;
                  cc = (if truthy (get_prop price ''_stale'') then ''public, max-age=5''
                        else if truthy (get_prop price ''_veryStale'') then ''public, max-age=1''
                        else ''public, max-age=30'')
              in (\<lparr>status = 200, cacheControl = Some cc, body = PriceOk price md\<rparr>, s2))
         | Inl err \<Rightarrow>
             (\<lparr>status = 500, cacheControl = None, body = Failure (message err) now\<rparr>, s2))"

section \<open>The decisions of getPrice\<close>

text \<open>
  The request falls through to the synchronous fetch: the first read of the store gives
  no entry (none there, or the read failed), or it gives an entry that \<open>isExpired\<close>
  finds expired and \<open>canServeStale\<close> finds too old. \<open>getPrice\<close> reads the clock once
  before the \<open>try\<close>, so the two checks see the next two readings.
\<close>

definition reaches_fetch :: "string \<Rightarrow> provider \<Rightarrow> bool" where
  "reaches_fetch key s =
     (case fst (getFromCache key s) of
        None \<Rightarrow> True
      | Some e \<Rightarrow> isExpired (clock s (Suc (ticks s))) e = Inr True
                  \<and> \<not> canServeStale (clock s (Suc (Suc (ticks s)))) e)"

section \<open>Example states\<close>

text \<open>
  A provider fresh from the constructor on an empty store that answers every command,
  a clock that advances one millisecond per reading, and an upstream that fails every
  call.
\<close>

definition quiet_provider :: provider where
  "quiet_provider =
     new_provider Map.empty (\<lambda>_. False) (\<lambda>n. int n) (\<lambda>_ _. Inl (Error ''upstream down''))"

text \<open>
  The same surroundings with the upstream answering every call with one quote.
\<close>

definition serving_provider :: provider where
  "serving_provider =
     new_provider Map.empty (\<lambda>_. False) (\<lambda>n. int n) (\<lambda>_ _. Inr [(''price'', JStr ''1.5'')])"

text \<open>
  A store seeded with one entry of \<open>TIER_1\<close> written at time 0, read 30 s later (past
  the TTL of 10 s, within \<open>maxStaleAge\<close>) and 4000 s later (past \<open>maxStaleAge\<close>); the
  upstream fails every call.
\<close>

definition stale_seeded :: provider where
  "stale_seeded =
     new_provider
       [''price:ethereum:usdc:weth:1000:exactin'' \<mapsto>
          (10, \<lparr>data = [(''price'', JStr ''1.5'')], timestamp = 0, tier = JStr ''TIER_1''\<rparr>)]
       (\<lambda>_. False) (\<lambda>n. 30000 + int n) (\<lambda>_ _. Inl (Error ''upstream down''))"

definition too_stale_seeded :: provider where
  "too_stale_seeded =
     new_provider
       [''price:ethereum:usdc:weth:1000:exactin'' \<mapsto>
          (10, \<lparr>data = [(''price'', JStr ''1.5'')], timestamp = 0, tier = JStr ''TIER_1''\<rparr>)]
       (\<lambda>_. False) (\<lambda>n. 4000000 + int n) (\<lambda>_ _. Inl (Error ''upstream down''))"

text \<open>
  The same entry read when its age reaches \<open>maxStaleAge\<close> exactly at the reading of
  the clock that \<open>canServeStale\<close> makes (the third of the request); the upstream
  answers every call with one quote.
\<close>

definition boundary_seeded :: provider where
  "boundary_seeded =
     new_provider
       [''price:ethereum:usdc:weth:1000:exactin'' \<mapsto>
          (10, \<lparr>data = [(''price'', JStr ''1.5'')], timestamp = 0, tier = JStr ''TIER_1''\<rparr>)]
       (\<lambda>_. False) (\<lambda>n. 3599997 + int n) (\<lambda>_ _. Inr [(''price'', JStr ''1.6'')])"

text \<open>Five requests with distinct cache keys.\<close>

definition five_requests :: "request list" where
  "five_requests =
     [(''Ethereum'', ''USDC'', ''WETH'', ''1000'', ''exactIn''),
      (''Ethereum'', ''USDC'', ''WETH'', ''2000'', ''exactIn''),
      (''Ethereum'', ''USDC'', ''WETH'', ''3000'', ''exactIn''),
      (''Ethereum'', ''USDC'', ''WETH'', ''4000'', ''exactIn''),
      (''Ethereum'', ''USDC'', ''WETH'', ''5000'', ''exactIn'')]"

section \<open>Basic facts\<close>

lemma toLowerCase_append: "toLowerCase (s @ t) = toLowerCase s @ toLowerCase t"
  by (simp add: toLowerCase_def)

lemma same_up_to_case_toLowerCase:
  "same_up_to_case s t \<Longrightarrow> toLowerCase s = toLowerCase t"
  unfolding same_up_to_case_def toLowerCase_def
  by (induction s t rule: list_all2_induct) simp_all

lemma toLowerCase_price: "toLowerCase ''price:'' = ''price:''"
  by code_simp

lemma toLowerCase_colon: "toLowerCase '':'' = '':''"
  by code_simp

lemma tiers_get_TIER_4: "tiers_get ''TIER_4'' = Own \<lparr>ttl = 600000, refresh = None\<rparr>"
  by (simp add: tiers_get_def config_tiers_def)

lemma tiers_get_Own: "tiers_get tr = Own c \<longleftrightarrow> map_of config_tiers tr = Some c"
  by (simp add: tiers_get_def split: option.split)

lemma config_tiers_ttl:
  "map_of config_tiers tr = Some c \<Longrightarrow> ttl c \<in> {10000, 60000, 300000, 600000}"
  by (auto simp add: config_tiers_def split: if_splits)

lemma addPairToTier_pairs:
  "k \<in> set (pairs (case addPairToTier c i out tr s of Inl err \<Rightarrow> s | Inr s' \<Rightarrow> s') t)
     \<longleftrightarrow> k \<in> set (pairs s t)
          \<or> (tr = t \<and> map_of config_tiers t \<noteq> None \<and> pairKey c i out = k)"
  by (cases "tiers_get tr")
     (auto simp add: addPairToTier_def set_add_def tiers_get_def Let_def split: option.splits if_splits)

lemma pairKey_example: "pairKey ''Ethereum'' ''USDC'' ''WETH'' = ''ethereum:usdc:weth''"
  by code_simp

lemma pairKey_example_lower: "pairKey ''ethereum'' ''usdc'' ''weth'' = ''ethereum:usdc:weth''"
  by code_simp

lemma get_prop_with_prop_same: "get_prop (with_prop k v obj) k = v"
  by (induction obj) (auto simp add: get_prop_def)

lemma get_prop_with_prop_other: "k' \<noteq> k \<Longrightarrow> get_prop (with_prop k v obj) k' = get_prop obj k'"
  by (induction obj) (auto simp add: get_prop_def)

lemma get_prop_absent: "k \<notin> fst ` set obj \<Longrightarrow> get_prop obj k = JUndefined"
  by (induction obj) (auto simp add: get_prop_def)

lemma getFromCache_eq:
  "getFromCache key s =
     (if redisDown s (length (redisLog s)) then None else map_option snd (store s key),
      s\<lparr>redisLog := redisLog s @ [GET key]\<rparr>)"
  by (simp add: getFromCache_def redis_get_def Let_def)

lemma key_example:
  "generateCacheKey ''Ethereum'' ''USDC'' ''WETH'' ''1000'' ''exactIn''
     = ''price:ethereum:usdc:weth:1000:exactin''"
  by code_simp

lemma tiers_get_TIER_1: "tiers_get ''TIER_1'' = Own \<lparr>ttl = 10000, refresh = Some 5000\<rparr>"
  by (simp add: tiers_get_def config_tiers_def)

lemma getPrice_try_reaches_fetch:
  assumes "reaches_fetch key s"
  shows "\<exists>s1. getPrice_try c i out a t start key (snd (Date_now s))
                = getPrice_fetch c i out a t start key s1
          \<and> redisLog s1 = redisLog s @ [GET key] \<and> store s1 = store s
          \<and> redisDown s1 = redisDown s \<and> upstream s1 = upstream s
          \<and> upstreamLog s1 = upstreamLog s \<and> metrics s1 = metrics s
          \<and> pairs s1 = pairs s \<and> clock s1 = clock s \<and> priceQueue s1 = priceQueue s"
proof (cases "fst (getFromCache key s)")
  case None
  then have "getPrice_try c i out a t start key (snd (Date_now s))
           = getPrice_fetch c i out a t start key
               (s\<lparr>ticks := Suc (ticks s), redisLog := redisLog s @ [GET key]\<rparr>)"
    by (auto simp add: getPrice_try_def getFromCache_eq Date_now_def Let_def split: if_splits)
  then show ?thesis
    by (intro exI [of _ "s\<lparr>ticks := Suc (ticks s), redisLog := redisLog s @ [GET key]\<rparr>"]) simp
next
  case (Some e)
  with assms have "isExpired (clock s (Suc (ticks s))) e = Inr True"
    and "\<not> canServeStale (clock s (Suc (Suc (ticks s)))) e"
    by (auto simp add: reaches_fetch_def)
  with Some have "getPrice_try c i out a t start key (snd (Date_now s))
           = getPrice_fetch c i out a t start key
               (s\<lparr>redisLog := redisLog s @ [GET key], ticks := Suc (Suc (Suc (ticks s)))\<rparr>)"
    by (auto simp add: getPrice_try_def getFromCache_eq Date_now_def Let_def split: if_splits)
  then show ?thesis
    by (intro exI [of _ "s\<lparr>redisLog := redisLog s @ [GET key],
                           ticks := Suc (Suc (Suc (ticks s)))\<rparr>"]) simp
qed

lemma getPrice_fetch_failure:
  assumes "upstream s (length (upstreamLog s)) (c, i, out, a, t) = Inl err"
  shows "getPrice_fetch c i out a t start key s
    = (Inl err, s\<lparr>metrics := (metrics s)\<lparr>cacheMisses := cacheMisses (metrics s) + 1\<rparr>,
                  upstreamLog := upstreamLog s @ [(c, i, out, a, t)]\<rparr>)"
  using assms by (simp add: getPrice_fetch_def fetchPrice_def Let_def)

lemma getPrice_fetch_success:
  assumes "upstream s (length (upstreamLog s)) (c, i, out, a, t) = Inr q"
  shows "fst (getPrice_fetch c i out a t start key s) = Inr q
    \<and> upstreamLog (snd (getPrice_fetch c i out a t start key s))
        = upstreamLog s @ [(c, i, out, a, t)]"
  using assms
  by (simp add: getPrice_fetch_def fetchPrice_def setCache_def Date_now_def
      recordResponseTime_def redis_setex_def redis_setex_NaN_def Let_def split: lookup.split)

section \<open>Tier membership\<close>

text \<open>
  Claim C2 says that after any sequence of \<open>addPairToTier\<close> calls a pair key is a member
  of at most one tier. \<open>addPairToTier\<close> only adds to the named set and no code removes
  a key from a set: assigning the same pair to \<open>TIER_1\<close> and then to \<open>TIER_2\<close> leaves
  it in both.
\<close>

theorem addPairToTier_two_tiers_counterexample:
  "''ethereum:usdc:weth'' \<in> set (pairs (addPairsToTiers
        [(''Ethereum'', ''USDC'', ''WETH'', ''TIER_1''),
         (''Ethereum'', ''USDC'', ''WETH'', ''TIER_2'')] quiet_provider) ''TIER_1'')
   \<and> ''ethereum:usdc:weth'' \<in> set (pairs (addPairsToTiers
        [(''Ethereum'', ''USDC'', ''WETH'', ''TIER_1''),
         (''Ethereum'', ''USDC'', ''WETH'', ''TIER_2'')] quiet_provider) ''TIER_2'')"
  by (simp add: addPairToTier_def pairKey_example tiers_get_def config_tiers_def set_add_def Let_def
      quiet_provider_def new_provider_def)

text \<open>
  Claim C2, amended: after any sequence of \<open>addPairToTier\<close> calls a pair key is a
  member of a tier exactly when it was a member before or some call naming that tier
  (one of the four of the configuration) assigned it; a call adds to the named tier and
  leaves the membership in every other tier as it was.
\<close>

theorem addPairsToTiers_membership:
  "k \<in> set (pairs (addPairsToTiers calls s) t)
     \<longleftrightarrow> k \<in> set (pairs s t)
          \<or> (\<exists>(c, i, out, tr) \<in> set calls.
                tr = t \<and> map_of config_tiers t \<noteq> None \<and> pairKey c i out = k)"
proof (induction calls arbitrary: s)
  case Nil
  show ?case by simp
next
  case (Cons call calls)
  obtain c i out tr where call: "call = (c, i, out, tr)"
    by (cases call) auto
  show ?case
    unfolding call addPairsToTiers.simps Cons.IH addPairToTier_pairs
    by auto
qed

theorem addPairsToTiers_membership_witness:
  "''ethereum:usdc:weth'' \<in> set (pairs (addPairsToTiers
        [(''Ethereum'', ''USDC'', ''WETH'', ''TIER_1''),
         (''ethereum'', ''usdc'', ''weth'', ''TIER_3'')] quiet_provider) ''TIER_3'')
   \<and> ''ethereum:usdc:weth'' \<notin> set (pairs (addPairsToTiers
        [(''Ethereum'', ''USDC'', ''WETH'', ''TIER_1''),
         (''ethereum'', ''usdc'', ''weth'', ''TIER_3'')] quiet_provider) ''TIER_2'')"
  using addPairsToTiers_membership [of "''ethereum:usdc:weth''"
        "[(''Ethereum'', ''USDC'', ''WETH'', ''TIER_1''),
         (''ethereum'', ''usdc'', ''weth'', ''TIER_3'')]" quiet_provider "''TIER_3''"]
     addPairsToTiers_membership [of "''ethereum:usdc:weth''"
        "[(''Ethereum'', ''USDC'', ''WETH'', ''TIER_1''),
         (''ethereum'', ''usdc'', ''weth'', ''TIER_3'')]" quiet_provider "''TIER_2''"]
  by (simp add: pairKey_example pairKey_example_lower config_tiers_def quiet_provider_def
      new_provider_def)

section \<open>Freshness\<close>

text \<open>
  Claim C5 says an entry is servable-stale if and only if its age is at most
  \<open>maxStaleAge\<close>, an age of exactly \<open>maxStaleAge\<close> included. \<open>canServeStale\<close>
  compares with \<open><\<close>: at an age of exactly 3600000 ms it answers no.
\<close>

theorem canServeStale_boundary_counterexample:
  "\<not> (canServeStale 3600000 \<lparr>data = [], timestamp = 0, tier = JStr ''TIER_4''\<rparr>
       \<longleftrightarrow> 3600000 - timestamp \<lparr>data = [], timestamp = 0, tier = JStr ''TIER_4''\<rparr> \<le> maxStaleAge)"
  by (simp add: canServeStale_def maxStaleAge_def)

text \<open>
  Claim C5, amended: for every entry and every time \<open>now\<close>, the entry is servable-stale
  if and only if \<open>now - timestamp < maxStaleAge\<close> (3600 s); an entry whose age is exactly
  \<open>maxStaleAge\<close> is not servable-stale.
\<close>

theorem canServeStale_strict:
  "(canServeStale now cached \<longleftrightarrow> now - timestamp cached < maxStaleAge)
   \<and> maxStaleAge = 3600000
   \<and> \<not> canServeStale (timestamp cached + maxStaleAge) cached"
  by (simp add: canServeStale_def maxStaleAge_def)

text \<open>
  Claim C9: for an entry whose \<open>tier\<close> field is absent or otherwise falsy,
  \<open>isExpired\<close> compares the age of the entry with the TTL of \<open>TIER_4\<close>, 600000 ms;
  it neither throws nor answers that the entry is expired regardless of its age.
\<close>

theorem isExpired_default_tier:
  "\<not> truthy (tier cached) \<Longrightarrow> isExpired now cached = Inr (now - timestamp cached > 600000)"
  by (simp add: isExpired_def tiers_get_TIER_4)

theorem isExpired_default_tier_witness:
  "\<not> truthy JUndefined
   \<and> isExpired 600001 \<lparr>data = [], timestamp = 0, tier = JUndefined\<rparr> = Inr True
   \<and> isExpired 600000 \<lparr>data = [], timestamp = 0, tier = JStr ''''\<rparr> = Inr False"
  using isExpired_default_tier [of "\<lparr>data = [], timestamp = 0, tier = JUndefined\<rparr>" 600001]
    isExpired_default_tier [of "\<lparr>data = [], timestamp = 0, tier = JStr ''''\<rparr>" 600000]
  by simp

section \<open>Cache keys\<close>

text \<open>
  Claim C6 says that every two parameter tuples that are equal up to letter case have the
  same cache key. The key is made with \<open>toLowerCase\<close> alone, and two strings can have
  one upper-case form and two lower-case forms: the sharp s and \<open>SS\<close> are both \<open>SS\<close>
  in upper case, and their keys differ.
\<close>

theorem generateCacheKey_sharp_s_counterexample:
  "case_variants [CHR 0xDF] ''SS'' \<and> case_variants ''USDC'' ''USDC''
   \<and> case_variants ''WETH'' ''WETH'' \<and> case_variants ''1000'' ''1000''
   \<and> case_variants ''exactIn'' ''exactIn''
   \<and> generateCacheKey [CHR 0xDF] ''USDC'' ''WETH'' ''1000'' ''exactIn''
      = ''price:'' @ [CHR 0xDF] @ '':usdc:weth:1000:exactin''
   \<and> generateCacheKey ''SS'' ''USDC'' ''WETH'' ''1000'' ''exactIn''
      = ''price:ss:usdc:weth:1000:exactin''
   \<and> generateCacheKey [CHR 0xDF] ''USDC'' ''WETH'' ''1000'' ''exactIn''
      \<noteq> generateCacheKey ''SS'' ''USDC'' ''WETH'' ''1000'' ''exactIn''"
  by code_simp

text \<open>
  Claim C6, amended: two parameter tuples of strings of Basic Latin and Latin-1 characters
  that agree place by place up to letter case (each pair of characters has the same
  lower-case form) have the same cache key, and the key is the constant \<open>price:\<close>
  followed by the five parameters in lower case, in the order chain, tokenIn, tokenOut,
  amount, direction, joined with colons.
\<close>

theorem generateCacheKey_canonical:
  assumes "same_up_to_case chainName chainName'"
    and "same_up_to_case tokenIn tokenIn'"
    and "same_up_to_case tokenOut tokenOut'"
    and "same_up_to_case amount amount'"
    and "same_up_to_case tradeType tradeType'"
  shows "generateCacheKey chainName tokenIn tokenOut amount tradeType
           = generateCacheKey chainName' tokenIn' tokenOut' amount' tradeType'
         \<and> generateCacheKey chainName tokenIn tokenOut amount tradeType
           = ''price:'' @ toLowerCase chainName @ '':'' @ toLowerCase tokenIn @ '':''
             @ toLowerCase tokenOut @ '':'' @ toLowerCase amount @ '':'' @ toLowerCase tradeType"
proof -
  have shape: "generateCacheKey c i out a t
      = ''price:'' @ toLowerCase c @ '':'' @ toLowerCase i @ '':''
        @ toLowerCase out @ '':'' @ toLowerCase a @ '':'' @ toLowerCase t" for c i out a t
    unfolding generateCacheKey_def toLowerCase_append toLowerCase_price toLowerCase_colon ..
  show ?thesis
    using assms
    by (simp add: shape same_up_to_case_toLowerCase)
qed

theorem generateCacheKey_canonical_witness:
  "same_up_to_case ''Ethereum'' ''ethereum'' \<and> same_up_to_case ''USDC'' ''usdc''
   \<and> same_up_to_case ''WETH'' ''Weth'' \<and> same_up_to_case ''1000'' ''1000''
   \<and> same_up_to_case ''exactIn'' ''EXACTIN''
   \<and> generateCacheKey ''Ethereum'' ''USDC'' ''WETH'' ''1000'' ''exactIn''
      = generateCacheKey ''ethereum'' ''usdc'' ''Weth'' ''1000'' ''EXACTIN''
   \<and> generateCacheKey ''Ethereum'' ''USDC'' ''WETH'' ''1000'' ''exactIn''
      = ''price:ethereum:usdc:weth:1000:exactin''"
proof -
  have h1: "same_up_to_case ''Ethereum'' ''ethereum''"
    and h2: "same_up_to_case ''USDC'' ''usdc''"
    and h3: "same_up_to_case ''WETH'' ''Weth''"
    and h4: "same_up_to_case ''1000'' ''1000''"
    and h5: "same_up_to_case ''exactIn'' ''EXACTIN''"
    by code_simp+
  have lows: "toLowerCase ''Ethereum'' = ''ethereum''" "toLowerCase ''USDC'' = ''usdc''"
    "toLowerCase ''WETH'' = ''weth''" "toLowerCase ''1000'' = ''1000''"
    "toLowerCase ''exactIn'' = ''exactin''"
    by code_simp+
  note k = generateCacheKey_canonical [OF h1 h2 h3 h4 h5]
  have e1: "generateCacheKey ''Ethereum'' ''USDC'' ''WETH'' ''1000'' ''exactIn''
      = generateCacheKey ''ethereum'' ''usdc'' ''Weth'' ''1000'' ''EXACTIN''"
    by (rule conjunct1 [OF k])
  have e2: "generateCacheKey ''Ethereum'' ''USDC'' ''WETH'' ''1000'' ''exactIn''
      = ''price:ethereum:usdc:weth:1000:exactin''"
    using conjunct2 [OF k] by (simp add: lows)
  show ?thesis
    by (intro conjI h1 h2 h3 h4 h5 e1 e2)
qed

section \<open>Metrics\<close>

text \<open>
  Claim C7: the \<open>hitRate\<close> of \<open>getMetrics\<close> is \<open>cacheHits / (cacheHits + cacheMisses)\<close>
  whenever that denominator is positive, and 0 when both counters are 0.
\<close>

theorem getMetrics_hitRate:
  "(0 < cacheHits (metrics s) + cacheMisses (metrics s) \<longrightarrow>
      snap_hitRate (fst (getMetrics s))
        = Num (of_nat (cacheHits (metrics s))
               / of_nat (cacheHits (metrics s) + cacheMisses (metrics s))))
   \<and> (cacheHits (metrics s) = 0 \<and> cacheMisses (metrics s) = 0 \<longrightarrow>
      snap_hitRate (fst (getMetrics s)) = Num 0)"
  by (auto simp add: getMetrics_def Date_now_def hitRate_def js_div_def)

theorem getMetrics_hitRate_witness:
  "snap_hitRate (fst (getMetrics
      (quiet_provider\<lparr>metrics := (metrics quiet_provider)\<lparr>cacheHits := 3, cacheMisses := 1\<rparr>\<rparr>)))
     = Num (3 / 4)
   \<and> snap_hitRate (fst (getMetrics quiet_provider)) = Num 0"
  using getMetrics_hitRate [of "quiet_provider\<lparr>metrics := (metrics quiet_provider)\<lparr>cacheHits := 3, cacheMisses := 1\<rparr>\<rparr>"]
    getMetrics_hitRate [of quiet_provider]
  by (simp add: quiet_provider_def new_provider_def)

section \<open>Writing the store\<close>

text \<open>
  Claim C8: for every key, payload and tier of the configuration, \<open>setCache\<close> sends the
  entry to the store with a TTL of exactly \<open>floor(ttl / 1000)\<close> seconds, and the store
  holds it so when it accepts the command. That TTL is the same duration as the freshness
  boundary of the tier and no more than \<open>maxStaleAge\<close>: the entry counts as expired
  exactly when its age exceeds the TTL it was stored with.
\<close>

theorem setCache_store_ttl:
  assumes "map_of config_tiers tr = Some c"
  shows "redisLog (setCache key d tr s)
           = redisLog s @ [SETEX key (ttl c div 1000)
                             \<lparr>data = d, timestamp = clock s (ticks s), tier = JStr tr\<rparr>]
         \<and> (\<not> redisDown s (length (redisLog s)) \<longrightarrow>
              store (setCache key d tr s) key
                = Some (ttl c div 1000,
                        \<lparr>data = d, timestamp = clock s (ticks s), tier = JStr tr\<rparr>))
         \<and> 1000 * (ttl c div 1000) = ttl c
         \<and> 1000 * (ttl c div 1000) \<le> maxStaleAge
         \<and> (\<forall>now. isExpired now \<lparr>data = d, timestamp = clock s (ticks s), tier = JStr tr\<rparr>
                    = Inr (now - clock s (ticks s) > 1000 * (ttl c div 1000)))"
proof -
  have own: "tiers_get tr = Own c"
    using assms by (simp add: tiers_get_Own)
  have ne: "tr \<noteq> []"
    using assms by (auto simp add: config_tiers_def split: if_splits)
  have exact: "1000 * (ttl c div 1000) = ttl c" and below: "1000 * (ttl c div 1000) \<le> maxStaleAge"
    using config_tiers_ttl [OF assms] by (auto simp add: maxStaleAge_def)
  have log: "redisLog (setCache key d tr s)
           = redisLog s @ [SETEX key (ttl c div 1000)
                             \<lparr>data = d, timestamp = clock s (ticks s), tier = JStr tr\<rparr>]"
    by (simp add: setCache_def Date_now_def own redis_setex_def Let_def)
  have st: "\<not> redisDown s (length (redisLog s)) \<Longrightarrow>
              store (setCache key d tr s) key
                = Some (ttl c div 1000,
                        \<lparr>data = d, timestamp = clock s (ticks s), tier = JStr tr\<rparr>)"
    by (simp add: setCache_def Date_now_def own redis_setex_def Let_def)
  have ex: "isExpired now \<lparr>data = d, timestamp = clock s (ticks s), tier = JStr tr\<rparr>
                    = Inr (now - clock s (ticks s) > 1000 * (ttl c div 1000))" for now
    by (simp add: isExpired_def ne own exact)
  show ?thesis
    using log st exact below ex by blast
qed

theorem setCache_store_ttl_witness:
  "map_of config_tiers ''TIER_1'' = Some \<lparr>ttl = 10000, refresh = Some 5000\<rparr>
   \<and> store (setCache ''price:ethereum:usdc:weth:1000:exactin'' [(''price'', JStr ''1.5'')] ''TIER_1''
        quiet_provider) ''price:ethereum:usdc:weth:1000:exactin''
      = Some (10, \<lparr>data = [(''price'', JStr ''1.5'')], timestamp = 1, tier = JStr ''TIER_1''\<rparr>)
   \<and> isExpired 10001 \<lparr>data = [(''price'', JStr ''1.5'')], timestamp = 1, tier = JStr ''TIER_1''\<rparr>
      = Inr False
   \<and> isExpired 10002 \<lparr>data = [(''price'', JStr ''1.5'')], timestamp = 1, tier = JStr ''TIER_1''\<rparr>
      = Inr True"
proof -
  have h: "map_of config_tiers ''TIER_1'' = Some \<lparr>ttl = 10000, refresh = Some 5000\<rparr>"
    by (simp add: config_tiers_def)
  show ?thesis
    using h setCache_store_ttl [OF h, of "''price:ethereum:usdc:weth:1000:exactin''"
        "[(''price'', JStr ''1.5'')]" quiet_provider]
    by (simp add: quiet_provider_def new_provider_def)
qed

section \<open>The read path\<close>

text \<open>
  Claim C3 says that every request that finds an entry which is not fresh but is
  servable-stale, that is of an age within \<open>maxStaleAge\<close>, takes the stale path. An
  entry whose age is exactly \<open>maxStaleAge\<close> when \<open>canServeStale\<close> looks at it is within
  that bound and expired, yet \<open>canServeStale\<close> answers no: \<open>getPrice\<close> puts no job on the
  queue, counts a miss and no hit, calls upstream and returns the new quote without
  \<open>_stale\<close>.
\<close>

theorem getPrice_stale_boundary_counterexample:
  "store boundary_seeded (generateCacheKey ''Ethereum'' ''USDC'' ''WETH'' ''1000'' ''exactIn'')
     = Some (10, \<lparr>data = [(''price'', JStr ''1.5'')], timestamp = 0, tier = JStr ''TIER_1''\<rparr>)
   \<and> isExpired (clock boundary_seeded (Suc (ticks boundary_seeded)))
        \<lparr>data = [(''price'', JStr ''1.5'')], timestamp = 0, tier = JStr ''TIER_1''\<rparr> = Inr True
   \<and> clock boundary_seeded (Suc (Suc (ticks boundary_seeded)))
        - timestamp \<lparr>data = [(''price'', JStr ''1.5'')], timestamp = 0, tier = JStr ''TIER_1''\<rparr>
      = maxStaleAge
   \<and> fst (getPrice ''Ethereum'' ''USDC'' ''WETH'' ''1000'' ''exactIn'' boundary_seeded)
      = Inr [(''price'', JStr ''1.6'')]
   \<and> priceQueue (snd (getPrice ''Ethereum'' ''USDC'' ''WETH'' ''1000'' ''exactIn''
        boundary_seeded)) = []
   \<and> cacheHits (metrics (snd (getPrice ''Ethereum'' ''USDC'' ''WETH'' ''1000'' ''exactIn''
        boundary_seeded))) = 0
   \<and> cacheMisses (metrics (snd (getPrice ''Ethereum'' ''USDC'' ''WETH'' ''1000'' ''exactIn''
        boundary_seeded))) = 1
   \<and> upstreamLog (snd (getPrice ''Ethereum'' ''USDC'' ''WETH'' ''1000'' ''exactIn''
        boundary_seeded)) = [(''Ethereum'', ''USDC'', ''WETH'', ''1000'', ''exactIn'')]"
  by code_simp

text \<open>
  Claim C3, amended: when the store holds an entry for the request that is not fresh (its
  age exceeds the TTL of its tier) and whose age is strictly below \<open>maxStaleAge\<close>, which
  is what \<open>canServeStale\<close> asks, \<open>getPrice\<close> puts one job for that request on the queue
  with the background priority, adds one to \<open>cacheHits\<close> and leaves \<open>cacheMisses\<close>
  alone, and returns the cached quote with \<open>_stale\<close> set, without a call to upstream.
\<close>

theorem getPrice_stale_while_revalidate:
  assumes "\<not> redisDown s (length (redisLog s))"
    and "store s (generateCacheKey c i out a t) = Some (secs, e)"
    and "isExpired (clock s (Suc (ticks s))) e = Inr True"
    and "canServeStale (clock s (Suc (Suc (ticks s)))) e"
  shows "fst (getPrice c i out a t s) = Inr (with_prop ''_stale'' (JBool True) (data e))
    \<and> get_prop (with_prop ''_stale'' (JBool True) (data e)) ''_stale'' = JBool True
    \<and> priceQueue (snd (getPrice c i out a t s))
        = priceQueue s @ [\<lparr>j_name = ''fetch-price'', j_chainName = c, j_tokenInSymbol = i,
             j_tokenOutSymbol = out, j_amount = a, j_tradeType = t,
             j_timestamp = clock s (Suc (Suc (Suc (ticks s)))), j_priority = - 1,
             j_attempts = 3, j_backoff = (''exponential'', 2000)\<rparr>]
    \<and> cacheHits (metrics (snd (getPrice c i out a t s))) = cacheHits (metrics s) + 1
    \<and> cacheMisses (metrics (snd (getPrice c i out a t s))) = cacheMisses (metrics s)
    \<and> upstreamLog (snd (getPrice c i out a t s)) = upstreamLog s"
  using assms
  by (simp add: getPrice_def getPrice_try_def getFromCache_eq Date_now_def
      queuePriceUpdate_def recordResponseTime_def Let_def get_prop_with_prop_same)

theorem getPrice_stale_while_revalidate_witness:
  "fst (getPrice ''Ethereum'' ''USDC'' ''WETH'' ''1000'' ''exactIn'' stale_seeded)
     = Inr [(''price'', JStr ''1.5''), (''_stale'', JBool True)]
   \<and> map j_priority (priceQueue (snd (getPrice ''Ethereum'' ''USDC'' ''WETH'' ''1000'' ''exactIn''
        stale_seeded))) = [- 1]
   \<and> cacheHits (metrics (snd (getPrice ''Ethereum'' ''USDC'' ''WETH'' ''1000'' ''exactIn''
        stale_seeded))) = 1
   \<and> cacheMisses (metrics (snd (getPrice ''Ethereum'' ''USDC'' ''WETH'' ''1000'' ''exactIn''
        stale_seeded))) = 0
   \<and> upstreamLog (snd (getPrice ''Ethereum'' ''USDC'' ''WETH'' ''1000'' ''exactIn''
        stale_seeded)) = []"
proof -
  let ?e = "\<lparr>data = [(''price'', JStr ''1.5'')], timestamp = 0, tier = JStr ''TIER_1''\<rparr>"
  have h1: "\<not> redisDown stale_seeded (length (redisLog stale_seeded))"
    by (simp add: stale_seeded_def new_provider_def)
  have h2: "store stale_seeded (generateCacheKey ''Ethereum'' ''USDC'' ''WETH'' ''1000'' ''exactIn'')
      = Some (10, ?e)"
    by (simp add: key_example stale_seeded_def new_provider_def)
  have h3: "isExpired (clock stale_seeded (Suc (ticks stale_seeded))) ?e = Inr True"
    by (simp add: isExpired_def tiers_get_TIER_1 stale_seeded_def new_provider_def)
  have h4: "canServeStale (clock stale_seeded (Suc (Suc (ticks stale_seeded)))) ?e"
    by (simp add: canServeStale_def maxStaleAge_def stale_seeded_def new_provider_def)
  show ?thesis
    using getPrice_stale_while_revalidate [OF h1 h2 h3 h4]
    by (simp add: stale_seeded_def new_provider_def)
qed

text \<open>
  Claim C4: when the synchronous upstream fetch of a request fails, \<open>getPrice\<close> reads
  the store once more, so that the request has read it twice; if that read gives an entry,
  the result is the quote of the entry with \<open>_veryStale\<close> set and \<open>_error\<close> the
  message of the failure, and otherwise the error of the upstream reaches the caller.
\<close>

theorem getPrice_fetch_failure_fallback:
  assumes "reaches_fetch (generateCacheKey c i out a t) s"
    and "upstream s (length (upstreamLog s)) (c, i, out, a, t) = Inl err"
  shows "redisLog (snd (getPrice c i out a t s))
           = redisLog s @ [GET (generateCacheKey c i out a t), GET (generateCacheKey c i out a t)]
    \<and> fst (getPrice c i out a t s)
        = (case (if redisDown s (Suc (length (redisLog s))) then None
                 else map_option snd (store s (generateCacheKey c i out a t))) of
             Some e \<Rightarrow> Inr (with_prop ''_veryStale'' (JBool True)
                             (with_prop ''_error'' (JStr (message err)) (data e)))
           | None \<Rightarrow> Inl err)
    \<and> (\<forall>q. fst (getPrice c i out a t s) = Inr q \<longrightarrow>
          get_prop q ''_veryStale'' = JBool True \<and> get_prop q ''_error'' = JStr (message err))"
proof -
  let ?key = "generateCacheKey c i out a t"
  from getPrice_try_reaches_fetch [OF assms(1)]
  obtain s1 where tried: "getPrice_try c i out a t (clock s (ticks s)) ?key (snd (Date_now s))
           = getPrice_fetch c i out a t (clock s (ticks s)) ?key s1"
    and s1: "redisLog s1 = redisLog s @ [GET ?key]" "store s1 = store s"
      "redisDown s1 = redisDown s" "upstream s1 = upstream s" "upstreamLog s1 = upstreamLog s"
    by blast
  have "upstream s1 (length (upstreamLog s1)) (c, i, out, a, t) = Inl err"
    using assms(2) s1 by simp
  from getPrice_fetch_failure [OF this] tried
  have thrown: "getPrice_try c i out a t (clock s (ticks s)) ?key (snd (Date_now s))
     = (Inl err, s1\<lparr>metrics := (metrics s1)\<lparr>cacheMisses := cacheMisses (metrics s1) + 1\<rparr>,
                  upstreamLog := upstreamLog s1 @ [(c, i, out, a, t)]\<rparr>)"
    by simp
  have res: "fst (getPrice c i out a t s)
        = (case (if redisDown s (Suc (length (redisLog s))) then None
                 else map_option snd (store s ?key)) of
             Some e \<Rightarrow> Inr (with_prop ''_veryStale'' (JBool True)
                             (with_prop ''_error'' (JStr (message err)) (data e)))
           | None \<Rightarrow> Inl err)"
    using thrown s1
    by (simp add: getPrice_def Date_now_def getFromCache_eq Let_def split: option.split)
  have log: "redisLog (snd (getPrice c i out a t s)) = redisLog s @ [GET ?key, GET ?key]"
    using thrown s1
    by (simp add: getPrice_def Date_now_def getFromCache_eq Let_def split: option.split)
  have flags: "get_prop q ''_veryStale'' = JBool True \<and> get_prop q ''_error'' = JStr (message err)"
    if "fst (getPrice c i out a t s) = Inr q" for q
    using that unfolding res
    by (auto simp add: get_prop_with_prop_same get_prop_with_prop_other
        split: option.splits if_splits)
  show ?thesis
    using res log flags by blast
qed

theorem getPrice_fetch_failure_fallback_witness:
  "fst (getPrice ''Ethereum'' ''USDC'' ''WETH'' ''1000'' ''exactIn'' too_stale_seeded)
     = Inr [(''price'', JStr ''1.5''), (''_error'', JStr ''upstream down''),
            (''_veryStale'', JBool True)]
   \<and> fst (getPrice ''Ethereum'' ''USDC'' ''WETH'' ''1000'' ''exactIn'' quiet_provider)
     = Inl (Error ''upstream down'')
   \<and> redisLog (snd (getPrice ''Ethereum'' ''USDC'' ''WETH'' ''1000'' ''exactIn'' quiet_provider))
     = [GET ''price:ethereum:usdc:weth:1000:exactin'',
        GET ''price:ethereum:usdc:weth:1000:exactin'']"
proof -
  let ?e = "\<lparr>data = [(''price'', JStr ''1.5'')], timestamp = 0, tier = JStr ''TIER_1''\<rparr>"
  have h1: "reaches_fetch (generateCacheKey ''Ethereum'' ''USDC'' ''WETH'' ''1000'' ''exactIn'')
      too_stale_seeded"
    by (simp add: reaches_fetch_def getFromCache_eq key_example isExpired_def tiers_get_TIER_1
        canServeStale_def maxStaleAge_def too_stale_seeded_def new_provider_def)
  have h2: "upstream too_stale_seeded (length (upstreamLog too_stale_seeded))
      (''Ethereum'', ''USDC'', ''WETH'', ''1000'', ''exactIn'') = Inl (Error ''upstream down'')"
    by (simp add: too_stale_seeded_def new_provider_def)
  have h3: "reaches_fetch (generateCacheKey ''Ethereum'' ''USDC'' ''WETH'' ''1000'' ''exactIn'')
      quiet_provider"
    by (simp add: reaches_fetch_def getFromCache_eq key_example quiet_provider_def
        new_provider_def)
  have h4: "upstream quiet_provider (length (upstreamLog quiet_provider))
      (''Ethereum'', ''USDC'', ''WETH'', ''1000'', ''exactIn'') = Inl (Error ''upstream down'')"
    by (simp add: quiet_provider_def new_provider_def)
  show ?thesis
    using getPrice_fetch_failure_fallback [OF h1 h2] getPrice_fetch_failure_fallback [OF h3 h4]
    by (simp add: key_example too_stale_seeded_def quiet_provider_def new_provider_def)
qed

section \<open>The HTTP route\<close>

text \<open>
  Claim C10: a request to \<open>GET /price\<close> that misses the cache and is answered by the
  synchronous upstream fetch reports \<open>metadata.cached = true\<close>: \<open>cached\<close> is the
  conjunction of the negations of \<open>_stale\<close> and \<open>_veryStale\<close>, and the object that
  \<open>getPriceForPair\<close> returns has neither property.
\<close>

theorem price_route_miss_reports_cached:
  assumes "reaches_fetch (generateCacheKey c i out
              (case qa of None \<Rightarrow> ''1000'' | Some a \<Rightarrow> a)
              (case qt of None \<Rightarrow> ''exactIn'' | Some t \<Rightarrow> t)) s"
    and "upstream s (length (upstreamLog s))
           (c, i, out, case qa of None \<Rightarrow> ''1000'' | Some a \<Rightarrow> a,
            case qt of None \<Rightarrow> ''exactIn'' | Some t \<Rightarrow> t) = Inr q"
    and "''_stale'' \<notin> fst ` set q" and "''_veryStale'' \<notin> fst ` set q"
  shows "status (fst (price_route c i out qa qt s)) = 200
    \<and> (\<exists>md. body (fst (price_route c i out qa qt s)) = PriceOk q md \<and> m_cached md
             \<and> \<not> m_stale md \<and> \<not> m_veryStale md)
    \<and> upstreamLog (snd (price_route c i out qa qt s))
        = upstreamLog s @ [(c, i, out, case qa of None \<Rightarrow> ''1000'' | Some a \<Rightarrow> a,
                            case qt of None \<Rightarrow> ''exactIn'' | Some t \<Rightarrow> t)]"
proof -
  let ?a = "case qa of None \<Rightarrow> ''1000'' | Some a \<Rightarrow> a"
  let ?t = "case qt of None \<Rightarrow> ''exactIn'' | Some t \<Rightarrow> t"
  let ?key = "generateCacheKey c i out ?a ?t"
  from getPrice_try_reaches_fetch [OF assms(1)]
  obtain s1 where tried: "getPrice_try c i out ?a ?t (clock s (ticks s)) ?key (snd (Date_now s))
           = getPrice_fetch c i out ?a ?t (clock s (ticks s)) ?key s1"
    and s1: "upstream s1 = upstream s" "upstreamLog s1 = upstreamLog s"
    by blast
  have "upstream s1 (length (upstreamLog s1)) (c, i, out, ?a, ?t) = Inr q"
    using assms(2) s1 by simp
  from getPrice_fetch_success [OF this, of "clock s (ticks s)" ?key] tried
  have fetched: "fst (getPrice_try c i out ?a ?t (clock s (ticks s)) ?key (snd (Date_now s))) = Inr q"
    and logged: "upstreamLog (snd (getPrice_try c i out ?a ?t (clock s (ticks s)) ?key
                   (snd (Date_now s)))) = upstreamLog s @ [(c, i, out, ?a, ?t)]"
    using s1 by simp_all
  have price: "fst (getPrice c i out ?a ?t s) = Inr q"
    and log: "upstreamLog (snd (getPrice c i out ?a ?t s)) = upstreamLog s @ [(c, i, out, ?a, ?t)]"
    using fetched logged
    by (auto simp add: getPrice_def Date_now_def Let_def split: prod.splits sum.splits)
  have flags: "\<not> truthy (get_prop q ''_stale'')" "\<not> truthy (get_prop q ''_veryStale'')"
    using assms(3,4) by (simp_all add: get_prop_absent)
  show ?thesis
    using price log flags
    by (auto simp add: price_route_def Date_now_def Let_def split: prod.splits sum.splits)
qed

theorem price_route_miss_reports_cached_witness:
  "status (fst (price_route ''Ethereum'' ''USDC'' ''WETH'' None None serving_provider)) = 200
   \<and> (\<exists>md. body (fst (price_route ''Ethereum'' ''USDC'' ''WETH'' None None serving_provider))
             = PriceOk [(''price'', JStr ''1.5'')] md \<and> m_cached md)
   \<and> upstreamLog (snd (price_route ''Ethereum'' ''USDC'' ''WETH'' None None serving_provider))
      = [(''Ethereum'', ''USDC'', ''WETH'', ''1000'', ''exactIn'')]"
proof -
  have h1: "reaches_fetch (generateCacheKey ''Ethereum'' ''USDC'' ''WETH''
              (case None of None \<Rightarrow> ''1000'' | Some a \<Rightarrow> a)
              (case None of None \<Rightarrow> ''exactIn'' | Some t \<Rightarrow> t)) serving_provider"
    by (simp add: reaches_fetch_def getFromCache_eq serving_provider_def new_provider_def)
  have h2: "upstream serving_provider (length (upstreamLog serving_provider))
           (''Ethereum'', ''USDC'', ''WETH'', case None of None \<Rightarrow> ''1000'' | Some a \<Rightarrow> a,
            case None of None \<Rightarrow> ''exactIn'' | Some t \<Rightarrow> t) = Inr [(''price'', JStr ''1.5'')]"
    by (simp add: serving_provider_def new_provider_def)
  have h3: "''_stale'' \<notin> fst ` set [(''price'', JStr ''1.5'')]"
    and h4: "''_veryStale'' \<notin> fst ` set [(''price'', JStr ''1.5'')]"
    by simp_all
  show ?thesis
    using price_route_miss_reports_cached [OF h1 h2 h3 h4]
    by (auto simp add: serving_provider_def new_provider_def)
qed

section \<open>Upstream failures\<close>

text \<open>
  Claim C1 says that after \<open>failureThreshold\<close> (5) consecutive upstream failures a
  request within \<open>resetTimeout\<close> is refused without a call to upstream. \<open>fetchPrice\<close>
  calls \<open>getPriceForPair\<close> whatever happened before, and nothing reads
  \<open>config.circuitBreaker\<close>: on an empty store with a failing upstream, five requests
  fail, and the sixth, a few milliseconds later, calls upstream again and fails with the
  error of the upstream.
\<close>

theorem getPrice_sixth_call_reaches_upstream:
  "length five_requests = failureThreshold
   \<and> fst (getPrices five_requests quiet_provider) = replicate 5 (Inl (Error ''upstream down''))
   \<and> length (upstreamLog (snd (getPrices five_requests quiet_provider))) = 5
   \<and> fst (getPrice ''Ethereum'' ''USDC'' ''WETH'' ''6000'' ''exactIn''
            (snd (getPrices five_requests quiet_provider))) = Inl (Error ''upstream down'')
   \<and> length (upstreamLog (snd (getPrice ''Ethereum'' ''USDC'' ''WETH'' ''6000'' ''exactIn''
            (snd (getPrices five_requests quiet_provider))))) = 6
   \<and> last (upstreamLog (snd (getPrice ''Ethereum'' ''USDC'' ''WETH'' ''6000'' ''exactIn''
            (snd (getPrices five_requests quiet_provider)))))
       = (''Ethereum'', ''USDC'', ''WETH'', ''6000'', ''exactIn'')
   \<and> clock quiet_provider (ticks (snd (getPrice ''Ethereum'' ''USDC'' ''WETH'' ''6000''
            ''exactIn'' (snd (getPrices five_requests quiet_provider)))))
       - clock quiet_provider 0 < resetTimeout"
  by code_simp

end
